theory Spec2Isabelle
  imports Main "HOL-Library.AList"
begin

section \<open>JavaScript values shared by both programs\<close>

text \<open>
  Strings are \<open>string\<close>; a thrown JavaScript value is a \<open>js_error\<close> carrying its
  message, and a computation that may throw returns \<open>js_error + 'a\<close> (\<open>Inl\<close> is the
  throw, a rejected promise included).
\<close>

datatype js_error = JsError string

text \<open>\<^verbatim>\<open>s.startsWith(p)\<close>\<close>

definition startsWith :: "string \<Rightarrow> string \<Rightarrow> bool" where
  "startsWith s p = (take (length p) s = p)"

text \<open>
  \<^verbatim>\<open>s.replace(/\/$/, '')\<close>: the pattern has no flag, so \<open>$\<close> is the end of the input and
  the only possible match is a last character \<open>/\<close>; one slash is removed.
\<close>

definition replace_trailing_slash :: "string \<Rightarrow> string" where
  "replace_trailing_slash s = (if s \<noteq> [] \<and> last s = CHR ''/'' then butlast s else s)"

text \<open>
  \<^verbatim>\<open>s.replace(/^\/api\//, '')\<close>: \<open>^\<close> anchors the match at index 0, so the five
  characters are removed exactly when the input starts with them.
\<close>

definition replace_api_prefix :: "string \<Rightarrow> string" where
  "replace_api_prefix s = (if startsWith s ''/api/'' then drop 5 s else s)"

text \<open>
  \<^verbatim>\<open>v || d\<close> for \<open>v\<close> a string or \<open>undefined\<close>: \<open>undefined\<close> and the empty string are
  falsy.
\<close>

definition or_default :: "string option \<Rightarrow> string \<Rightarrow> string" where
  "or_default v d = (case v of None \<Rightarrow> d | Some s \<Rightarrow> if s = [] then d else s)"

section \<open>JSON.stringify\<close>

datatype json =
    JString string
  | JNumber nat
  | JBool bool
  | JArray "json list"
  | JObject "(string \<times> json) list"

definition digit_char :: "nat \<Rightarrow> char" where
  "digit_char d =
     (if d = 0 then CHR ''0'' else if d = 1 then CHR ''1'' else if d = 2 then CHR ''2''
      else if d = 3 then CHR ''3'' else if d = 4 then CHR ''4'' else if d = 5 then CHR ''5''
      else if d = 6 then CHR ''6'' else if d = 7 then CHR ''7'' else if d = 8 then CHR ''8''
      else if d = 9 then CHR ''9'' else if d = 10 then CHR ''a'' else if d = 11 then CHR ''b''
      else if d = 12 then CHR ''c'' else if d = 13 then CHR ''d'' else if d = 14 then CHR ''e''
      else CHR ''f'')"

fun string_of_nat :: "nat \<Rightarrow> string" where
  "string_of_nat n =
     (if n < 10 then [digit_char n] else string_of_nat (n div 10) @ [digit_char (n mod 10)])"

declare string_of_nat.simps [simp del]

text \<open>
  The quoting of a string by \<^verbatim>\<open>JSON.stringify\<close>: the double quote and the backslash are
  escaped, the control characters below 0x20 have their short or \<open>\u00XX\<close> form, every other
  character is copied.
\<close>

definition json_escape :: "char \<Rightarrow> string" where
  "json_escape c =
     (if c = CHR 0x22 then [CHR 0x5C, CHR 0x22]
      else if c = CHR 0x5C then [CHR 0x5C, CHR 0x5C]
      else if c = CHR 0x08 then [CHR 0x5C, CHR ''b'']
      else if c = CHR 0x09 then [CHR 0x5C, CHR ''t'']
      else if c = CHR 0x0A then [CHR 0x5C, CHR ''n'']
      else if c = CHR 0x0C then [CHR 0x5C, CHR ''f'']
      else if c = CHR 0x0D then [CHR 0x5C, CHR ''r'']
      else if (of_char c :: nat) < 32
        then [CHR 0x5C, CHR ''u'', CHR ''0'', CHR ''0'',
              digit_char (of_char c div 16), digit_char (of_char c mod 16)]
      else [c])"

definition json_quote :: "string \<Rightarrow> string" where
  "json_quote s = CHR 0x22 # concat (map json_escape s) @ [CHR 0x22]"

fun join_comma :: "string list \<Rightarrow> string" where
  "join_comma [] = []"
| "join_comma [x] = x"
| "join_comma (x # y # ys) = x @ '','' @ join_comma (y # ys)"

fun JSON_stringify :: "json \<Rightarrow> string" where
  "JSON_stringify (JString s) = json_quote s"
| "JSON_stringify (JNumber n) = string_of_nat n"
| "JSON_stringify (JBool b) = (if b then ''true'' else ''false'')"
| "JSON_stringify (JArray xs) = ''['' @ join_comma (map JSON_stringify xs) @ '']''"
| "JSON_stringify (JObject kvs) =
     ''{'' @ join_comma (map (\<lambda>(k, v). json_quote k @ '':'' @ JSON_stringify v) kvs) @ ''}''"

section \<open>The sidecar: \<^verbatim>\<open>src-tauri/sidecar/local-api-server.mjs\<close>\<close>

subsection \<open>Requests, responses and the world around the process\<close>

text \<open>
  A value of \<^verbatim>\<open>req.headers\<close>: a string, an array of strings, or \<open>undefined\<close>.
\<close>

datatype header_value = HString string | HArray "string list" | HUndefined

text \<open>
  A \<^verbatim>\<open>Headers\<close> object is the list of its entries in insertion order. The node request
  \<^verbatim>\<open>req\<close> has an immutable part (method and headers) and a stream, which is state (below).
\<close>

type_synonym headers = "(string \<times> string) list"

record incoming =
  in_method :: string
  in_headers :: "(string \<times> header_value) list"

text \<open>The parsed \<^verbatim>\<open>requestUrl\<close>: the fields of the \<^verbatim>\<open>URL\<close> object that the code reads.\<close>

record url =
  pathname :: string
  search :: string
  href :: string

record response =
  status :: nat
  resp_headers :: headers
  resp_body :: string

text \<open>The \<^verbatim>\<open>Request\<close> object that a local handler receives.\<close>

record request =
  rq_url :: string
  rq_method :: string
  rq_headers :: headers
  rq_body :: "string option"

text \<open>The arguments of one call of the global \<^verbatim>\<open>fetch\<close>.\<close>

record fetch_call =
  target :: string
  fc_method :: string
  fc_headers :: headers
  fc_body :: "string option"

text \<open>
  The default export of an imported module: anything that is not a function, or a function
  from the request to a response, which may throw or reject. A function that returns
  something other than a \<^verbatim>\<open>Response\<close> is outside the model.
\<close>

datatype default_export = Not_function | Function "request \<Rightarrow> js_error + response"

text \<open>
  Everything the process reads from outside itself: the environment variables behind the
  module constants, the file system, the module loader, the network and the clock.
  \<open>port\<close> is the value of \<^verbatim>\<open>Number(process.env.LOCAL_API_PORT || 46123)\<close>, taken to be a
  natural number, and \<open>apiDir\<close> that of
  \<^verbatim>\<open>path.join(resourceDir, 'api')\<close>; \<open>path_join\<close> is node's \<^verbatim>\<open>path.join\<close>; \<open>import_module\<close> is
  the dynamic \<^verbatim>\<open>import()\<close> of the file at a module path (the \<open>?v=\<close> token only defeats the
  module cache); \<open>cloud_fetch\<close> is the global \<^verbatim>\<open>fetch\<close>, \<open>Inl\<close> being a network-level failure;
  \<open>new_URL\<close> is the constructor call \<^verbatim>\<open>new URL(input, `http://127.0.0.1:${port}`)\<close> on the
  request target, which throws a \<^verbatim>\<open>TypeError\<close> when the URL parser fails on the input.
\<close>

record world =
  LOCAL_API_REMOTE_BASE :: "string option"
  LOCAL_API_MODE :: "string option"
  port :: nat
  apiDir :: string
  path_join :: "string \<Rightarrow> string \<Rightarrow> string"
  existsSync :: "string \<Rightarrow> bool"
  import_module :: "string \<Rightarrow> js_error + default_export"
  cloud_fetch :: "fetch_call \<Rightarrow> js_error + response"
  now_iso :: string
  new_URL :: "string \<Rightarrow> js_error + url"

text \<open>
  What the process does to the outside, in order. \<open>Dispatch_called\<close> marks the call of
  \<^verbatim>\<open>dispatch\<close> in the server callback.
\<close>

datatype event =
    Dispatch_called
  | Fetched fetch_call
  | Console_error "string list"

text \<open>
  The state one request threads through the code: the chunks of the request stream that
  have not been read, and the events so far. A node stream is read once: the chunks that
  \<^verbatim>\<open>for await\<close> has taken are gone, and iterating an ended stream yields nothing.
\<close>

record state =
  unread :: "string list"
  events :: "event list"

subsection \<open>Module constants\<close>

definition remoteBase :: "world \<Rightarrow> string" where
  "remoteBase w =
     replace_trailing_slash (or_default (LOCAL_API_REMOTE_BASE w) ''https://worldmonitor.app'')"

definition mode :: "world \<Rightarrow> string" where
  "mode w = or_default (LOCAL_API_MODE w) ''desktop-sidecar''"

subsection \<open>Helpers\<close>

text \<open>
  The object literal \<^verbatim>\<open>{ 'content-type': 'application/json', ...extraHeaders }\<close>: a later key
  overwrites an earlier one in place.
\<close>

definition json :: "json \<Rightarrow> nat \<Rightarrow> headers \<Rightarrow> response" where
  "json data st extraHeaders =
     \<lparr>status = st,
      resp_headers =
        foldl (\<lambda>hs (k, v). AList.update k v hs) [(''content-type'', ''application/json'')]
          extraHeaders,
      resp_body = JSON_stringify data\<rparr>"

definition readBody :: "state \<Rightarrow> string option \<times> state" where
  "readBody s =
     (let chunks = unread s
      in (if chunks \<noteq> [] then Some (concat chunks) else None, s\<lparr>unread := []\<rparr>))"

text \<open>
  \<^verbatim>\<open>headers.set\<close> replaces the first entry of the name and drops the others, or appends;
  \<^verbatim>\<open>headers.append\<close> appends.
\<close>

definition headers_set :: "string \<Rightarrow> string \<Rightarrow> headers \<Rightarrow> headers" where
  "headers_set k v hs =
     (if k \<in> fst ` set hs
      then takeWhile (\<lambda>e. fst e \<noteq> k) hs @ (k, v) #
           filter (\<lambda>e. fst e \<noteq> k) (tl (dropWhile (\<lambda>e. fst e \<noteq> k) hs))
      else hs @ [(k, v)])"

definition toHeaders :: "(string \<times> header_value) list \<Rightarrow> headers" where
  "toHeaders nodeHeaders =
     foldl (\<lambda>hs (key, val).
              case val of
                HArray vs \<Rightarrow> foldl (\<lambda>h v. h @ [(key, v)]) hs vs
              | HString v \<Rightarrow> headers_set key v hs
              | HUndefined \<Rightarrow> hs)
       [] nodeHeaders"

definition endpointFromPath :: "string \<Rightarrow> string" where
  "endpointFromPath p =
     (let e = replace_trailing_slash (replace_api_prefix p)
      in if e = [] then ''index'' else e)"

definition handleServiceStatus :: "world \<Rightarrow> response" where
  "handleServiceStatus w =
     json (JObject
       [(''success'', JBool True),
        (''timestamp'', JString (now_iso w)),
        (''summary'', JObject [(''operational'', JNumber 2), (''degraded'', JNumber 0),
                               (''outage'', JNumber 0), (''unknown'', JNumber 0)]),
        (''services'', JArray
          [JObject [(''id'', JString ''local-api''), (''name'', JString ''Local Desktop API''),
                    (''category'', JString ''dev''), (''status'', JString ''operational''),
                    (''description'', JString (''Running on 127.0.0.1:'' @ string_of_nat (port w)))],
           JObject [(''id'', JString ''cloud-pass-through''), (''name'', JString ''Cloud pass-through''),
                    (''category'', JString ''cloud''), (''status'', JString ''operational''),
                    (''description'', JString (''Fallback target '' @ remoteBase w))]]),
        (''local'', JObject [(''enabled'', JBool True), (''mode'', JString (mode w)),
                             (''port'', JNumber (port w)), (''remoteBase'', JString (remoteBase w))])])
       200 []"

definition log_event :: "event \<Rightarrow> state \<Rightarrow> state" where
  "log_event e s = s\<lparr>events := events s @ [e]\<rparr>"

text \<open>\<^verbatim>\<open>['GET', 'HEAD'].includes(req.method) ? undefined : await readBody(req)\<close>\<close>

definition body_of :: "incoming \<Rightarrow> state \<Rightarrow> string option \<times> state" where
  "body_of req s =
     (if in_method req \<in> set [''GET'', ''HEAD''] then (None, s) else readBody s)"

subsection \<open>Cloud Proxy\<close>

definition proxyToCloud :: "world \<Rightarrow> url \<Rightarrow> incoming \<Rightarrow> state \<Rightarrow> (js_error + response) \<times> state" where
  "proxyToCloud w requestUrl req s =
     (let tgt = remoteBase w @ pathname requestUrl @ search requestUrl;
          (body, s1) = body_of req s;
          call = \<lparr>target = tgt, fc_method = in_method req,
                  fc_headers = toHeaders (in_headers req), fc_body = body\<rparr>
      in (cloud_fetch w call, log_event (Fetched call) s1))"

subsection \<open>Dispatcher\<close>

text \<open>
  \<^verbatim>\<open>new Request(requestUrl.toString(), { method, headers: toHeaders(req.headers), body })\<close>.
  The model covers the requests whose method and URL the constructor accepts. It throws on
  a forbidden method (\<^verbatim>\<open>TRACE\<close>, \<^verbatim>\<open>CONNECT\<close>, \<^verbatim>\<open>TRACK\<close>) and on a URL with credentials; that
  throw happens inside the \<^verbatim>\<open>try\<close> block and reaches the same \<^verbatim>\<open>catch\<close> as a handler that
  throws.
\<close>

definition new_Request :: "url \<Rightarrow> incoming \<Rightarrow> string option \<Rightarrow> request" where
  "new_Request requestUrl req body =
     \<lparr>rq_url = href requestUrl, rq_method = in_method req,
      rq_headers = toHeaders (in_headers req), rq_body = body\<rparr>"

text \<open>The body of the \<^verbatim>\<open>try\<close> block of \<^verbatim>\<open>dispatch\<close>: \<open>Inl\<close> is what the \<^verbatim>\<open>catch\<close> receives.\<close>

definition try_handler ::
  "world \<Rightarrow> url \<Rightarrow> incoming \<Rightarrow> string \<Rightarrow> string \<Rightarrow> state \<Rightarrow> (js_error + response) \<times> state" where
  "try_handler w requestUrl req endpoint modulePath s =
     (case import_module w modulePath of
        Inl err \<Rightarrow> (Inl err, s)
      | Inr Not_function \<Rightarrow>
          (Inr (json (JObject [(''error'', JString (''Invalid handler for '' @ endpoint))]) 500 []), s)
      | Inr (Function handler) \<Rightarrow>
          (let (body, s1) = body_of req s;
               request = new_Request requestUrl req body
           in (handler request, s1)))"

definition modulePath_of :: "world \<Rightarrow> url \<Rightarrow> string" where
  "modulePath_of w requestUrl =
     path_join w (apiDir w) (endpointFromPath (pathname requestUrl) @ ''.js'')"

definition dispatch :: "world \<Rightarrow> url \<Rightarrow> incoming \<Rightarrow> state \<Rightarrow> (js_error + response) \<times> state" where
  "dispatch w requestUrl req s =
     (if pathname requestUrl = ''/api/service-status'' then (Inr (handleServiceStatus w), s)
      else if pathname requestUrl = ''/api/local-status'' then
        (Inr (json (JObject [(''success'', JBool True), (''mode'', JString (mode w)),
                             (''port'', JNumber (port w)), (''apiDir'', JString (apiDir w)),
                             (''remoteBase'', JString (remoteBase w))]) 200 []), s)
      else
        (let endpoint = endpointFromPath (pathname requestUrl);
             modulePath = modulePath_of w requestUrl
         in if \<not> existsSync w modulePath then proxyToCloud w requestUrl req s
            else
              (case try_handler w requestUrl req endpoint modulePath s of
                 (Inr resp, s1) \<Rightarrow> (Inr resp, s1)
               | (Inl (JsError msg), s1) \<Rightarrow>
                   (case proxyToCloud w requestUrl req
                           (log_event (Console_error
                              [''[local-api] handler failed, using cloud fallback'', endpoint, msg]) s1) of
                      (Inr resp, s2) \<Rightarrow> (Inr resp, s2)
                    | (Inl _, s2) \<Rightarrow>
                        (Inr (json (JObject [(''error'',
                                JString ''Local handler failed and cloud fallback unavailable'')]) 502 []),
                         s2)))))"

subsection \<open>Gateway Server\<close>

text \<open>
  What the callback writes to \<^verbatim>\<open>res\<close>. \<^verbatim>\<open>Object.fromEntries\<close> keeps, for a name that occurs
  twice, the position of the first entry and the value of the last.

  The callback of \<^verbatim>\<open>createServer\<close> is in two parts. \<open>server_callback\<close> is the callback from
  the prefix test on, for the \<^verbatim>\<open>requestUrl\<close> that its first statement has built;
  \<open>createServer_callback\<close>, after it, is the whole callback, first statement included.
\<close>

record written =
  wr_status :: nat
  wr_headers :: headers
  wr_body :: string

definition fromEntries :: "headers \<Rightarrow> headers" where
  "fromEntries es = foldl (\<lambda>hs (k, v). AList.update k v hs) [] es"

definition server_callback :: "world \<Rightarrow> url \<Rightarrow> incoming \<Rightarrow> state \<Rightarrow> written \<times> state" where
  "server_callback w requestUrl req s =
     (if \<not> startsWith (pathname requestUrl) ''/api/'' then
        (\<lparr>wr_status = 404, wr_headers = [(''content-type'', ''application/json'')],
          wr_body = JSON_stringify (JObject [(''error'', JString ''Not found'')])\<rparr>, s)
      else
        (case dispatch w requestUrl req (log_event Dispatch_called s) of
           (Inr resp, s1) \<Rightarrow>
             (\<lparr>wr_status = status resp, wr_headers = fromEntries (resp_headers resp),
               wr_body = resp_body resp\<rparr>, s1)
         | (Inl (JsError msg), s1) \<Rightarrow>
             (\<lparr>wr_status = 500, wr_headers = [(''content-type'', ''application/json'')],
               wr_body = JSON_stringify (JObject [(''error'', JString ''Internal server error'')])\<rparr>,
              log_event (Console_error [''[local-api] fatal'', msg]) s1)))"

text \<open>
  The whole callback, on \<^verbatim>\<open>req.url\<close> (a string or \<open>undefined\<close>) and the rest of \<^verbatim>\<open>req\<close>. Its
  first statement, \<^verbatim>\<open>new URL(req.url || '/', ...)\<close>, stands before the prefix test and outside
  the \<^verbatim>\<open>try\<close>: when the constructor throws, the \<^verbatim>\<open>async\<close> callback rejects (\<open>Inl\<close>) and
  nothing has been written to \<^verbatim>\<open>res\<close>.
\<close>

definition createServer_callback ::
  "world \<Rightarrow> string option \<Rightarrow> incoming \<Rightarrow> state \<Rightarrow> (js_error + written) \<times> state" where
  "createServer_callback w req_url req s =
     (case new_URL w (or_default req_url ''/'') of
        Inl err \<Rightarrow> (Inl err, s)
      | Inr requestUrl \<Rightarrow>
          (case server_callback w requestUrl req s of (wr, s1) \<Rightarrow> (Inr wr, s1)))"

section \<open>The client runtime shim\<close>

text \<open>
  The value of \<^verbatim>\<open>window.fetch\<close>: the browser's own function, or the closure that
  \<^verbatim>\<open>installRuntimeFetchPatch\<close> builds around the function it found (bound to the window),
  with the two base URLs it captured.
\<close>

datatype fetch_fn = Native_fetch | Patched fetch_fn string string

text \<open>
  The properties of \<^verbatim>\<open>window\<close> that the shim reads or writes: whether each marker of the
  desktop shell is \<^verbatim>\<open>in window\<close>, whether \<^verbatim>\<open>window.__wmFetchPatched\<close> is truthy, and
  \<^verbatim>\<open>window.fetch\<close>.
\<close>

record window =
  has_TAURI_INTERNALS :: bool
  has_TAURI :: bool
  wmFetchPatched :: bool
  window_fetch :: fetch_fn

text \<open>
  The global context of the shim: \<open>global_window = None\<close> when
  \<^verbatim>\<open>typeof window === 'undefined'\<close>, and the variables of \<^verbatim>\<open>import.meta.env\<close>.
\<close>

record runtime =
  global_window :: "window option"
  VITE_TAURI_API_BASE_URL :: "string option"
  VITE_TAURI_REMOTE_API_BASE_URL :: "string option"
  VITE_VARIANT :: "string option"

text \<open>
  The own properties of the object literal. A variant that names an inherited property of
  \<^verbatim>\<open>Object.prototype\<close> is outside the model.
\<close>

definition DEFAULT_REMOTE_HOSTS :: "string \<Rightarrow> string option" where
  "DEFAULT_REMOTE_HOSTS =
     map_of [(''tech'', ''https://tech.worldmonitor.app''),
             (''full'', ''https://worldmonitor.app''),
             (''world'', ''https://worldmonitor.app'')]"

definition DEFAULT_LOCAL_API_BASE :: string where
  "DEFAULT_LOCAL_API_BASE = ''http://127.0.0.1:46123''"

definition normalizeBaseUrl :: "string \<Rightarrow> string" where
  "normalizeBaseUrl baseUrl = replace_trailing_slash baseUrl"

definition isDesktopRuntime :: "runtime \<Rightarrow> bool" where
  "isDesktopRuntime r =
     (case global_window r of
        None \<Rightarrow> False
      | Some win \<Rightarrow> has_TAURI_INTERNALS win \<or> has_TAURI win)"

text \<open>
  In both functions \<^verbatim>\<open>if (configured)\<close> tests a string or \<open>undefined\<close>: \<open>undefined\<close> and
  the empty string are falsy.
\<close>

definition getApiBaseUrl :: "runtime \<Rightarrow> string" where
  "getApiBaseUrl r =
     (if \<not> isDesktopRuntime r then []
      else
        (case VITE_TAURI_API_BASE_URL r of
           Some configuredBaseUrl \<Rightarrow>
             if configuredBaseUrl \<noteq> [] then normalizeBaseUrl configuredBaseUrl
             else DEFAULT_LOCAL_API_BASE
         | None \<Rightarrow> DEFAULT_LOCAL_API_BASE))"

definition variant_host :: "runtime \<Rightarrow> string" where
  "variant_host r =
     (let variant = or_default (VITE_VARIANT r) ''world''
      in case DEFAULT_REMOTE_HOSTS variant of
           Some host \<Rightarrow> host
         | None \<Rightarrow>
             (case DEFAULT_REMOTE_HOSTS ''world'' of
                Some host \<Rightarrow> host
              | None \<Rightarrow> ''https://worldmonitor.app''))"

definition getRemoteApiBaseUrl :: "runtime \<Rightarrow> string" where
  "getRemoteApiBaseUrl r =
     (case VITE_TAURI_REMOTE_API_BASE_URL r of
        Some configuredRemoteBase \<Rightarrow>
          if configuredRemoteBase \<noteq> [] then normalizeBaseUrl configuredRemoteBase
          else variant_host r
      | None \<Rightarrow> variant_host r)"

definition toRuntimeUrl :: "runtime \<Rightarrow> string \<Rightarrow> string" where
  "toRuntimeUrl r path =
     (if \<not> startsWith path ''/'' then path
      else
        (let baseUrl = getApiBaseUrl r
         in if baseUrl = [] then path else baseUrl @ path))"

definition installRuntimeFetchPatch :: "runtime \<Rightarrow> runtime" where
  "installRuntimeFetchPatch r =
     (case global_window r of
        None \<Rightarrow> r
      | Some win \<Rightarrow>
          if \<not> isDesktopRuntime r \<or> wmFetchPatched win then r
          else
            r\<lparr>global_window :=
                Some (win\<lparr>window_fetch :=
                            Patched (window_fetch win) (getApiBaseUrl r) (getRemoteApiBaseUrl r),
                          wmFetchPatched := True\<rparr>)\<rparr>)"

text \<open>
  Calling a value of \<^verbatim>\<open>window.fetch\<close> on a URL string, over a network that answers or fails
  per URL: the patched function passes any URL outside \<open>/api/\<close> through, and otherwise
  tries the local base and, when that call rejects, the remote base.
\<close>

fun call_fetch :: "(string \<Rightarrow> js_error + response) \<Rightarrow> fetch_fn \<Rightarrow> string \<Rightarrow> js_error + response" where
  "call_fetch net Native_fetch u = net u"
| "call_fetch net (Patched nativeFetch local_base remote_base) u =
     (if \<not> startsWith u ''/api/'' then call_fetch net nativeFetch u
      else
        (case call_fetch net nativeFetch (local_base @ u) of
           Inr resp \<Rightarrow> Inr resp
         | Inl _ \<Rightarrow> call_fetch net nativeFetch (remote_base @ u)))"

text \<open>How many patches are stacked in a value of \<^verbatim>\<open>window.fetch\<close>.\<close>

fun patch_depth :: "fetch_fn \<Rightarrow> nat" where
  "patch_depth Native_fetch = 0"
| "patch_depth (Patched f _ _) = Suc (patch_depth f)"

section \<open>Concrete scenarios\<close>

text \<open>
  A sidecar with the default configuration whose resource directory holds one handler
  file, \<open>weather.js\<close>; the loader and the network answer as given.
\<close>

definition sample_url :: "string \<Rightarrow> url" where
  "sample_url p = \<lparr>pathname = p, search = [], href = ''http://127.0.0.1:46123'' @ p\<rparr>"

text \<open>
  The URL constructor of the sample, on request targets. On \<open>//\<close> the parser of the URL
  Standard, having read the two slashes against an \<open>http\<close> base, expects a host, finds the
  end of the input, and fails (an empty host in a special scheme): the constructor throws.
  A plain absolute path is its own \<open>pathname\<close>, with an empty \<open>search\<close>; the sample is
  used on no other target.
\<close>

definition sample_new_URL :: "string \<Rightarrow> js_error + url" where
  "sample_new_URL input =
     (if input = ''//'' then Inl (JsError ''Invalid URL'') else Inr (sample_url input))"

definition sample_world :: "(js_error + default_export) \<Rightarrow> (js_error + response) \<Rightarrow> world" where
  "sample_world loaded upstream =
     \<lparr>LOCAL_API_REMOTE_BASE = None, LOCAL_API_MODE = None, port = 46123,
      apiDir = ''/res/api'', path_join = (\<lambda>a b. a @ ''/'' @ b),
      existsSync = (\<lambda>p. p = ''/res/api/weather.js''),
      import_module = (\<lambda>p. loaded), cloud_fetch = (\<lambda>c. upstream),
      now_iso = ''2024-01-01T00:00:00.000Z'', new_URL = sample_new_URL\<rparr>"

definition sample_req :: "string \<Rightarrow> incoming" where
  "sample_req m = \<lparr>in_method = m, in_headers = [(''accept'', HString ''*/*'')]\<rparr>"

definition fresh :: "string list \<Rightarrow> state" where
  "fresh chunks = \<lparr>unread = chunks, events = []\<rparr>"

definition upstream_ok :: response where
  "upstream_ok = \<lparr>status = 200, resp_headers = [(''content-type'', ''text/plain'')], resp_body = ''ok''\<rparr>"



definition throwing_handler :: "request \<Rightarrow> js_error + response" where
  "throwing_handler rq = Inl (JsError ''boom'')"

definition tauri_window :: window where
  "tauri_window =
     \<lparr>has_TAURI_INTERNALS = True, has_TAURI = False, wmFetchPatched = False,
      window_fetch = Native_fetch\<rparr>"

definition desktop_runtime :: "string option \<Rightarrow> runtime" where
  "desktop_runtime override =
     \<lparr>global_window = Some tauri_window, VITE_TAURI_API_BASE_URL = override,
      VITE_TAURI_REMOTE_API_BASE_URL = None, VITE_VARIANT = None\<rparr>"

definition browser_runtime :: "string option \<Rightarrow> runtime" where
  "browser_runtime override =
     \<lparr>global_window = Some (tauri_window\<lparr>has_TAURI_INTERNALS := False\<rparr>),
      VITE_TAURI_API_BASE_URL = override,
      VITE_TAURI_REMOTE_API_BASE_URL = None, VITE_VARIANT = None\<rparr>"

section \<open>Facts about the model\<close>

subsection \<open>The fixed JSON bodies\<close>

lemma stringify_not_found:
  \<open>JSON_stringify (JObject [(''error'', JString ''Not found'')]) = ''{"error":"Not found"}''\<close>
  by (simp add: json_quote_def json_escape_def)

lemma stringify_internal:
  \<open>JSON_stringify (JObject [(''error'', JString ''Internal server error'')]) =
     ''{"error":"Internal server error"}''\<close>
  by (simp add: json_quote_def json_escape_def)

lemma stringify_unavailable:
  \<open>JSON_stringify (JObject [(''error'', JString ''Local handler failed and cloud fallback unavailable'')]) =
     ''{"error":"Local handler failed and cloud fallback unavailable"}''\<close>
  by (simp add: json_quote_def json_escape_def)

lemma stringify_invalid_weather:
  \<open>JSON_stringify (JObject [(''error'', JString (''Invalid handler for '' @ ''weather''))]) =
     ''{"error":"Invalid handler for weather"}''\<close>
  by (simp add: json_quote_def json_escape_def)

lemma json_no_extra:
  "json data st [] = \<lparr>status = st, resp_headers = [(''content-type'', ''application/json'')],
     resp_body = JSON_stringify data\<rparr>"
  by (simp add: json_def)

lemma unavailable_response:
  \<open>json (JObject [(''error'', JString ''Local handler failed and cloud fallback unavailable'')]) 502 [] =
     \<lparr>status = 502, resp_headers = [(''content-type'', ''application/json'')],
      resp_body = ''{"error":"Local handler failed and cloud fallback unavailable"}''\<rparr>\<close>
  unfolding json_no_extra stringify_unavailable ..

subsection \<open>Reading the request stream\<close>

text \<open>
  \<^verbatim>\<open>GET\<close> and \<^verbatim>\<open>HEAD\<close> leave the stream alone; any other method drains it, and
  what it yields is the whole body or \<open>undefined\<close> when there is no chunk.
\<close>

lemma body_of_events: "events (snd (body_of req s)) = events s"
  by (simp add: body_of_def readBody_def Let_def)

lemma body_of_get_head:
  "in_method req = ''GET'' \<or> in_method req = ''HEAD'' \<Longrightarrow> body_of req s = (None, s)"
  by (auto simp: body_of_def)

lemma body_of_other:
  "in_method req \<noteq> ''GET'' \<Longrightarrow> in_method req \<noteq> ''HEAD'' \<Longrightarrow>
   body_of req s = (if unread s \<noteq> [] then Some (concat (unread s)) else None, s\<lparr>unread := []\<rparr>)"
  by (simp add: body_of_def readBody_def Let_def)

subsection \<open>The paths through \<^verbatim>\<open>proxyToCloud\<close> and \<^verbatim>\<open>dispatch\<close>\<close>

lemma proxyToCloud_unfold:
  "proxyToCloud w u req s =
     (cloud_fetch w \<lparr>target = remoteBase w @ pathname u @ search u, fc_method = in_method req,
                     fc_headers = toHeaders (in_headers req), fc_body = fst (body_of req s)\<rparr>,
      log_event (Fetched \<lparr>target = remoteBase w @ pathname u @ search u, fc_method = in_method req,
                     fc_headers = toHeaders (in_headers req), fc_body = fst (body_of req s)\<rparr>)
        (snd (body_of req s)))"
  by (simp add: proxyToCloud_def Let_def split: prod.splits)

lemma proxyToCloud_events:
  "events (snd (proxyToCloud w u req s)) =
     events s @ [Fetched \<lparr>target = remoteBase w @ pathname u @ search u, fc_method = in_method req,
                     fc_headers = toHeaders (in_headers req), fc_body = fst (body_of req s)\<rparr>]"
  by (simp add: proxyToCloud_unfold log_event_def body_of_events)

lemma proxyToCloud_body:
  "events (snd (proxyToCloud w u req s)) =
     events s @ [Fetched \<lparr>target = remoteBase w @ pathname u @ search u, fc_method = in_method req,
                  fc_headers = toHeaders (in_headers req),
                  fc_body = (if in_method req = ''GET'' \<or> in_method req = ''HEAD'' \<or> unread s = []
                             then None else Some (concat (unread s)))\<rparr>]"
  by (simp add: proxyToCloud_events body_of_def readBody_def Let_def)

lemma dispatch_not_found:
  assumes "pathname u \<noteq> ''/api/service-status''" and "pathname u \<noteq> ''/api/local-status''"
    and "\<not> existsSync w (modulePath_of w u)"
  shows "dispatch w u req s = proxyToCloud w u req s"
  using assms by (simp add: dispatch_def Let_def)

lemma dispatch_handler_path:
  assumes "pathname u \<noteq> ''/api/service-status''" and "pathname u \<noteq> ''/api/local-status''"
    and "existsSync w (modulePath_of w u)"
  shows "dispatch w u req s =
     (case try_handler w u req (endpointFromPath (pathname u)) (modulePath_of w u) s of
        (Inr resp, s1) \<Rightarrow> (Inr resp, s1)
      | (Inl (JsError msg), s1) \<Rightarrow>
          (case proxyToCloud w u req
                  (log_event (Console_error
                     [''[local-api] handler failed, using cloud fallback'',
                      endpointFromPath (pathname u), msg]) s1) of
             (Inr resp, s2) \<Rightarrow> (Inr resp, s2)
           | (Inl _, s2) \<Rightarrow>
               (Inr (json (JObject [(''error'',
                       JString ''Local handler failed and cloud fallback unavailable'')]) 502 []),
                s2)))"
  using assms by (simp add: dispatch_def Let_def)

lemma try_handler_import_throws:
  "import_module w mp = Inl e \<Longrightarrow> try_handler w u req ep mp s = (Inl e, s)"
  by (simp add: try_handler_def)

lemma try_handler_not_function:
  "import_module w mp = Inr Not_function \<Longrightarrow>
   try_handler w u req ep mp s =
     (Inr (json (JObject [(''error'', JString (''Invalid handler for '' @ ep))]) 500 []), s)"
  by (simp add: try_handler_def)

lemma try_handler_function:
  "import_module w mp = Inr (Function h) \<Longrightarrow>
   try_handler w u req ep mp s =
     (h (new_Request u req (fst (body_of req s))), snd (body_of req s))"
  by (simp add: try_handler_def Let_def split: prod.splits)

lemma try_handler_events:
  "events (snd (try_handler w u req ep mp s)) = events s"
  by (simp add: try_handler_def Let_def body_of_events split: sum.splits default_export.splits prod.splits)
    (metis body_of_events snd_conv)

lemma dispatch_fallback_fails:
  assumes "pathname u \<noteq> ''/api/service-status''" and "pathname u \<noteq> ''/api/local-status''"
    and "existsSync w (modulePath_of w u)"
    and "try_handler w u req (endpointFromPath (pathname u)) (modulePath_of w u) s = (Inl (JsError m), s1)"
    and "fst (proxyToCloud w u req
                 (log_event (Console_error
                    [''[local-api] handler failed, using cloud fallback'',
                     endpointFromPath (pathname u), m]) s1)) = Inl e"
  shows "fst (dispatch w u req s) =
     Inr (json (JObject [(''error'',
            JString ''Local handler failed and cloud fallback unavailable'')]) 502 [])"
proof -
  obtain s2 where "proxyToCloud w u req
                 (log_event (Console_error
                    [''[local-api] handler failed, using cloud fallback'',
                     endpointFromPath (pathname u), m]) s1) = (Inl e, s2)"
    using assms(5) by (metis prod.collapse)
  then show ?thesis
    using assms(4) by (simp add: dispatch_handler_path [OF assms(1-3)])
qed

lemma dispatch_fallback_succeeds:
  assumes "pathname u \<noteq> ''/api/service-status''" and "pathname u \<noteq> ''/api/local-status''"
    and "existsSync w (modulePath_of w u)"
    and "try_handler w u req (endpointFromPath (pathname u)) (modulePath_of w u) s = (Inl (JsError m), s1)"
    and "proxyToCloud w u req
                 (log_event (Console_error
                    [''[local-api] handler failed, using cloud fallback'',
                     endpointFromPath (pathname u), m]) s1) = (Inr r, s2)"
  shows "dispatch w u req s = (Inr r, s2)"
  using assms(4,5) by (simp add: dispatch_handler_path [OF assms(1-3)])

lemma dispatch_events_grow:
  "\<exists>es. events (snd (dispatch w u req s)) = events s @ es"
proof (cases "pathname u = ''/api/service-status'' \<or> pathname u = ''/api/local-status''")
  case True
  then show ?thesis by (auto simp: dispatch_def)
next
  case special: False
  show ?thesis
  proof (cases "existsSync w (modulePath_of w u)")
    case False
    then show ?thesis using special by (simp add: dispatch_def Let_def proxyToCloud_events)
  next
    case True
    obtain r s1 where t: "try_handler w u req (endpointFromPath (pathname u)) (modulePath_of w u) s = (r, s1)"
      by (metis prod.collapse)
    then have e1: "events s1 = events s" using try_handler_events [of w u req "endpointFromPath (pathname u)" "modulePath_of w u" s] by simp
    show ?thesis
    proof (cases r)
      case (Inr resp)
      then show ?thesis using special True t e1 by (simp add: dispatch_handler_path)
    next
      case (Inl err)
      obtain msg where m: "err = JsError msg" by (cases err)
      obtain r2 s2 where p: "proxyToCloud w u req
                  (log_event (Console_error
                     [''[local-api] handler failed, using cloud fallback'',
                      endpointFromPath (pathname u), msg]) s1) = (r2, s2)"
        by (metis prod.collapse)
      have "events s2 = events s @ Console_error
                     [''[local-api] handler failed, using cloud fallback'',
                      endpointFromPath (pathname u), msg] #
         [Fetched \<lparr>target = remoteBase w @ pathname u @ search u, fc_method = in_method req,
                     fc_headers = toHeaders (in_headers req), fc_body = fst (body_of req (log_event (Console_error
                     [''[local-api] handler failed, using cloud fallback'',
                      endpointFromPath (pathname u), msg]) s1))\<rparr>]"
        using proxyToCloud_events [of w u req "log_event (Console_error
                     [''[local-api] handler failed, using cloud fallback'',
                      endpointFromPath (pathname u), msg]) s1"] p e1
        by (simp add: log_event_def)
      then show ?thesis using special True t Inl m p
        by (cases r2) (simp_all add: dispatch_handler_path)
    qed
  qed
qed

text \<open>
  When the imported function throws on a request that is neither \<^verbatim>\<open>GET\<close> nor \<^verbatim>\<open>HEAD\<close>, the
  \<^verbatim>\<open>try\<close> block has drained the stream before the call, and the fallback's second
  \<^verbatim>\<open>readBody\<close> finds nothing: the upstream request carries no body, whatever the client
  sent.
\<close>

lemma fallback_body_after_invocation:
  assumes "pathname u \<noteq> ''/api/service-status''" and "pathname u \<noteq> ''/api/local-status''"
    and "existsSync w (modulePath_of w u)"
    and "import_module w (modulePath_of w u) = Inr (Function h)"
    and "h (new_Request u req (fst (body_of req s))) = Inl (JsError m)"
    and "in_method req \<noteq> ''GET''" and "in_method req \<noteq> ''HEAD''"
  shows "events (snd (dispatch w u req s)) =
     events s @
       [Console_error [''[local-api] handler failed, using cloud fallback'',
          endpointFromPath (pathname u), m],
        Fetched \<lparr>target = remoteBase w @ pathname u @ search u, fc_method = in_method req,
                 fc_headers = toHeaders (in_headers req), fc_body = None\<rparr>]"
proof -
  let ?s1 = "log_event (Console_error [''[local-api] handler failed, using cloud fallback'',
          endpointFromPath (pathname u), m]) (snd (body_of req s))"
  have u1: "unread ?s1 = []" and e1: "events ?s1 = events s @ [Console_error [''[local-api] handler failed, using cloud fallback'',
          endpointFromPath (pathname u), m]]"
    using assms(6,7) by (simp_all add: log_event_def body_of_other)
  have t: "try_handler w u req (endpointFromPath (pathname u)) (modulePath_of w u) s =
      (Inl (JsError m), snd (body_of req s))"
    using assms(4,5) by (simp add: try_handler_function)
  obtain r2 s2 where p: "proxyToCloud w u req ?s1 = (r2, s2)"
    by (metis prod.collapse)
  have "events s2 = events ?s1 @ [Fetched \<lparr>target = remoteBase w @ pathname u @ search u,
           fc_method = in_method req, fc_headers = toHeaders (in_headers req), fc_body = None\<rparr>]"
    using proxyToCloud_body [of w u req ?s1] p u1 by simp
  then have "events (snd (dispatch w u req s)) = events ?s1 @ [Fetched \<lparr>target = remoteBase w @ pathname u @ search u,
           fc_method = in_method req, fc_headers = toHeaders (in_headers req), fc_body = None\<rparr>]"
    using t p by (cases r2) (simp_all add: dispatch_handler_path [OF assms(1-3)])
  then show ?thesis by (simp add: e1)
qed

text \<open>
  The server callback. A parsed path outside \<open>/api/\<close> is answered 404 and the state is
  untouched; a path under \<open>/api/\<close> reaches \<^verbatim>\<open>dispatch\<close>. The whole callback does the same
  whenever the URL constructor returns, and rejects with nothing written when it throws.
\<close>

lemma server_callback_outside_api:
  \<open>(\<not> startsWith (pathname u) ''/api/'' \<longrightarrow>
      server_callback w u req s =
        (\<lparr>wr_status = 404, wr_headers = [(''content-type'', ''application/json'')],
          wr_body = ''{"error":"Not found"}''\<rparr>, s)) \<and>
    (startsWith (pathname u) ''/api/'' \<longrightarrow>
      Dispatch_called \<in> set (events (snd (server_callback w u req s))))\<close>
proof (intro conjI impI)
  assume "\<not> startsWith (pathname u) ''/api/''"
  then show \<open>server_callback w u req s =
        (\<lparr>wr_status = 404, wr_headers = [(''content-type'', ''application/json'')],
          wr_body = ''{"error":"Not found"}''\<rparr>, s)\<close>
    unfolding server_callback_def stringify_not_found by simp
next
  assume api: "startsWith (pathname u) ''/api/''"
  obtain es where es: "events (snd (dispatch w u req (log_event Dispatch_called s))) =
      events (log_event Dispatch_called s) @ es"
    using dispatch_events_grow by blast
  obtain r s1 where d: "dispatch w u req (log_event Dispatch_called s) = (r, s1)"
    by (metis prod.collapse)
  with es have "Dispatch_called \<in> set (events s1)" by (simp add: log_event_def)
  then show "Dispatch_called \<in> set (events (snd (server_callback w u req s)))"
    using api d by (cases r) (auto simp: server_callback_def log_event_def split: js_error.splits)
qed

lemma createServer_callback_throws:
  "new_URL w (or_default req_url ''/'') = Inl err \<Longrightarrow>
   createServer_callback w req_url req s = (Inl err, s)"
  by (simp add: createServer_callback_def)

lemma createServer_callback_parsed:
  "new_URL w (or_default req_url ''/'') = Inr u \<Longrightarrow>
   createServer_callback w req_url req s =
     (Inr (fst (server_callback w u req s)), snd (server_callback w u req s))"
  by (simp add: createServer_callback_def split: prod.splits)

lemma createServer_callback_outside_api:
  assumes "new_URL w (or_default req_url ''/'') = Inr u" and "\<not> startsWith (pathname u) ''/api/''"
  shows \<open>createServer_callback w req_url req s =
     (Inr \<lparr>wr_status = 404, wr_headers = [(''content-type'', ''application/json'')],
           wr_body = ''{"error":"Not found"}''\<rparr>, s)\<close>
  using server_callback_outside_api [of u w req s] assms
  by (simp add: createServer_callback_parsed)

lemma sample_callback_outside_api:
  \<open>createServer_callback (sample_world (Inr Not_function) (Inr upstream_ok)) (Some ''/index.html'')
     (sample_req ''POST'') (fresh [''abc'']) =
     (Inr \<lparr>wr_status = 404, wr_headers = [(''content-type'', ''application/json'')],
           wr_body = ''{"error":"Not found"}''\<rparr>, fresh [''abc''])\<close>
  by (rule createServer_callback_outside_api [where u = "sample_url ''/index.html''"])
    (simp_all add: sample_world_def sample_new_URL_def or_default_def sample_url_def startsWith_def)

subsection \<open>Path strings\<close>

lemma startsWith_append: "startsWith (p @ s) p"
  by (simp add: startsWith_def)

lemma replace_api_prefix_append: "replace_api_prefix (''/api/'' @ e) = e"
  using startsWith_append [of "''/api/''" e] by (simp add: replace_api_prefix_def)

lemma replace_trailing_slash_snoc: "replace_trailing_slash (e @ ''/'') = e"
  by (simp add: replace_trailing_slash_def)

lemma replace_trailing_slash_id:
  "e = [] \<or> last e \<noteq> CHR ''/'' \<Longrightarrow> replace_trailing_slash e = e"
  by (auto simp: replace_trailing_slash_def)

subsection \<open>The sample sidecar\<close>

lemma sample_module_path:
  "modulePath_of (sample_world l n) (sample_url ''/api/weather'') = ''/res/api/weather.js''"
  by (simp add: modulePath_of_def sample_world_def sample_url_def endpointFromPath_def
      replace_api_prefix_def replace_trailing_slash_def startsWith_def)

lemma sample_defaults:
  "remoteBase (sample_world l n) = ''https://worldmonitor.app''"
  by (simp add: remoteBase_def sample_world_def or_default_def replace_trailing_slash_def)

lemma sample_endpoint: "endpointFromPath ''/api/weather'' = ''weather''"
  by (simp add: endpointFromPath_def replace_api_prefix_def replace_trailing_slash_def startsWith_def)

lemma sample_headers: "toHeaders [(''accept'', HString ''*/*'')] = [(''accept'', ''*/*'')]"
  by (simp add: toHeaders_def headers_set_def)

lemma sample_exists:
  "existsSync (sample_world l n) (modulePath_of (sample_world l n) (sample_url ''/api/weather''))"
  by (simp add: sample_module_path) (simp add: sample_world_def)

lemma sample_not_exists:
  "\<not> existsSync (sample_world l n) (modulePath_of (sample_world l n) (sample_url ''/api/news''))"
  by (simp add: modulePath_of_def sample_world_def sample_url_def endpointFromPath_def
      replace_api_prefix_def replace_trailing_slash_def startsWith_def)

lemma sample_proxy:
  "proxyToCloud (sample_world l n) (sample_url p) (sample_req m) s =
     (n, log_event (Fetched \<lparr>target = ''https://worldmonitor.app'' @ p, fc_method = m,
                     fc_headers = [(''accept'', ''*/*'')],
                     fc_body = fst (body_of (sample_req m) s)\<rparr>) (snd (body_of (sample_req m) s)))"
  by (simp add: proxyToCloud_unfold sample_defaults)
    (simp add: sample_world_def sample_url_def sample_req_def sample_headers)

subsection \<open>The shim\<close>

lemma normalizeBaseUrl_snoc: "normalizeBaseUrl (b @ ''/'') = b"
  by (simp add: normalizeBaseUrl_def replace_trailing_slash_def)

lemma patched_fetch_api:
  "startsWith u ''/api/'' \<Longrightarrow>
   call_fetch net (Patched Native_fetch lb rb) u =
     (case net (lb @ u) of Inr resp \<Rightarrow> Inr resp | Inl err \<Rightarrow> net (rb @ u))"
  by (simp split: sum.splits)

lemma patched_fetch_other:
  "\<not> startsWith u ''/api/'' \<Longrightarrow> call_fetch net (Patched Native_fetch lb rb) u = net u"
  by simp

lemma install_not_desktop: "\<not> isDesktopRuntime r \<Longrightarrow> installRuntimeFetchPatch r = r"
  by (simp add: installRuntimeFetchPatch_def split: option.splits)

lemma install_patched:
  "global_window r = Some win \<Longrightarrow> wmFetchPatched win \<Longrightarrow> installRuntimeFetchPatch r = r"
  by (simp add: installRuntimeFetchPatch_def)

lemma install_fresh:
  "global_window r = Some win \<Longrightarrow> isDesktopRuntime r \<Longrightarrow> \<not> wmFetchPatched win \<Longrightarrow>
   installRuntimeFetchPatch r =
     r\<lparr>global_window :=
         Some (win\<lparr>window_fetch :=
                     Patched (window_fetch win) (getApiBaseUrl r) (getRemoteApiBaseUrl r),
                   wmFetchPatched := True\<rparr>)\<rparr>"
  by (simp add: installRuntimeFetchPatch_def)

lemma install_twice:
  "installRuntimeFetchPatch (installRuntimeFetchPatch r) = installRuntimeFetchPatch r"
proof (cases "global_window r")
  case None
  then show ?thesis by (simp add: installRuntimeFetchPatch_def)
next
  case (Some win)
  show ?thesis
  proof (cases "isDesktopRuntime r \<and> \<not> wmFetchPatched win")
    case True
    then show ?thesis
      using Some by (simp add: install_fresh install_patched)
  next
    case False
    then have "installRuntimeFetchPatch r = r"
      using Some by (auto simp: install_not_desktop install_patched)
    then show ?thesis by simp
  qed
qed

lemma install_funpow:
  "(installRuntimeFetchPatch ^^ Suc n) r = installRuntimeFetchPatch r"
  by (induction n) (simp_all add: install_twice)

lemma install_depth:
  assumes "global_window r = Some win" and "global_window ((installRuntimeFetchPatch ^^ n) r) = Some win'"
  shows "patch_depth (window_fetch win') \<le> Suc (patch_depth (window_fetch win))"
proof (cases n)
  case 0
  then show ?thesis using assms by simp
next
  case (Suc k)
  then have w': "global_window (installRuntimeFetchPatch r) = Some win'"
    using assms(2) install_funpow [of k r] by simp
  show ?thesis
  proof (cases "isDesktopRuntime r \<and> \<not> wmFetchPatched win")
    case True
    then show ?thesis using w' assms(1) by (auto simp: install_fresh)
  next
    case False
    then have "installRuntimeFetchPatch r = r"
      using assms(1) by (auto simp: install_not_desktop install_patched)
    then show ?thesis using w' assms(1) by simp
  qed
qed

section \<open>The claims\<close>

text \<open>
  C1, as the code has it. The claim says that a module whose default export is not callable
  makes \<^verbatim>\<open>dispatch\<close> fall back to the Cloud Proxy. The code tests
  \<^verbatim>\<open>typeof mod.default !== 'function'\<close> inside the \<^verbatim>\<open>try\<close> block and returns from it: the
  response is 500 with the body \<^verbatim>\<open>{"error":"Invalid handler for <endpoint>"}\<close>, nothing is
  thrown, and no upstream request is made. At the sample sidecar, where the upstream would
  have answered 200, \<^verbatim>\<open>GET /api/weather\<close> gets the 500 and the event list stays empty.
\<close>

theorem dispatch_invalid_handler_counterexample:
  \<open>existsSync (sample_world (Inr Not_function) (Inr upstream_ok))
      (modulePath_of (sample_world (Inr Not_function) (Inr upstream_ok)) (sample_url ''/api/weather'')) \<and>
    import_module (sample_world (Inr Not_function) (Inr upstream_ok))
      (modulePath_of (sample_world (Inr Not_function) (Inr upstream_ok)) (sample_url ''/api/weather''))
      = Inr Not_function \<and>
    fst (proxyToCloud (sample_world (Inr Not_function) (Inr upstream_ok)) (sample_url ''/api/weather'')
           (sample_req ''GET'') (fresh [])) = Inr upstream_ok \<and>
    dispatch (sample_world (Inr Not_function) (Inr upstream_ok)) (sample_url ''/api/weather'')
       (sample_req ''GET'') (fresh []) =
      (Inr \<lparr>status = 500, resp_headers = [(''content-type'', ''application/json'')],
            resp_body = ''{"error":"Invalid handler for weather"}''\<rparr>,
       \<lparr>unread = [], events = []\<rparr>)\<close>
proof -
  have mp: "existsSync (sample_world (Inr Not_function) (Inr upstream_ok))
      (modulePath_of (sample_world (Inr Not_function) (Inr upstream_ok)) (sample_url ''/api/weather''))"
    by (simp add: sample_module_path) (simp add: sample_world_def)
  have imp: "import_module (sample_world (Inr Not_function) (Inr upstream_ok))
      (modulePath_of (sample_world (Inr Not_function) (Inr upstream_ok)) (sample_url ''/api/weather''))
      = Inr Not_function"
    by (simp add: sample_world_def)
  have px: "fst (proxyToCloud (sample_world (Inr Not_function) (Inr upstream_ok)) (sample_url ''/api/weather'')
           (sample_req ''GET'') (fresh [])) = Inr upstream_ok"
    by (simp add: proxyToCloud_unfold) (simp add: sample_world_def)
  have sp: "pathname (sample_url ''/api/weather'') \<noteq> ''/api/service-status''"
    "pathname (sample_url ''/api/weather'') \<noteq> ''/api/local-status''"
    by (simp_all add: sample_url_def)
  have ep: "endpointFromPath (pathname (sample_url ''/api/weather'')) = ''weather''"
    by (simp add: sample_url_def sample_endpoint)
  have \<open>dispatch (sample_world (Inr Not_function) (Inr upstream_ok)) (sample_url ''/api/weather'')
       (sample_req ''GET'') (fresh []) =
      (Inr \<lparr>status = 500, resp_headers = [(''content-type'', ''application/json'')],
            resp_body = ''{"error":"Invalid handler for weather"}''\<rparr>,
       \<lparr>unread = [], events = []\<rparr>)\<close>
    unfolding dispatch_handler_path [OF sp mp] try_handler_not_function [OF imp] ep
      json_no_extra stringify_invalid_weather
    by (simp add: fresh_def)
  with mp imp px show ?thesis by blast
qed

text \<open>
  C1, amended. For a request whose handler file exists: when the module loads and its default
  export is not callable, \<^verbatim>\<open>dispatch\<close> returns the 500 \<open>Invalid handler\<close> response and
  leaves the state as it was (no upstream request, the stream unread); when the import throws,
  or the imported function throws, \<^verbatim>\<open>dispatch\<close> logs, calls the Cloud Proxy, and returns
  the proxy's response whenever that call succeeds.
\<close>

theorem dispatch_invalid_handler:
  assumes "pathname u \<noteq> ''/api/service-status''" and "pathname u \<noteq> ''/api/local-status''"
    and "existsSync w (modulePath_of w u)"
  shows \<open>(import_module w (modulePath_of w u) = Inr Not_function
          \<longrightarrow> dispatch w u req s =
                (Inr \<lparr>status = 500, resp_headers = [(''content-type'', ''application/json'')],
                      resp_body = JSON_stringify (JObject [(''error'',
                         JString (''Invalid handler for '' @ endpointFromPath (pathname u)))])\<rparr>, s))
       \<and>
         (import_module w (modulePath_of w u) = Inl (JsError m) \<and>
          proxyToCloud w u req
             (log_event (Console_error
                [''[local-api] handler failed, using cloud fallback'',
                 endpointFromPath (pathname u), m]) s) = (Inr r, s2)
          \<longrightarrow> dispatch w u req s = (Inr r, s2))
       \<and>
         (import_module w (modulePath_of w u) = Inr (Function h) \<and>
          h (new_Request u req (fst (body_of req s))) = Inl (JsError m) \<and>
          proxyToCloud w u req
             (log_event (Console_error
                [''[local-api] handler failed, using cloud fallback'',
                 endpointFromPath (pathname u), m]) (snd (body_of req s))) = (Inr r, s2)
          \<longrightarrow> dispatch w u req s = (Inr r, s2))\<close>
proof (intro conjI impI)
  assume "import_module w (modulePath_of w u) = Inr Not_function"
  then show \<open>dispatch w u req s =
                (Inr \<lparr>status = 500, resp_headers = [(''content-type'', ''application/json'')],
                      resp_body = JSON_stringify (JObject [(''error'',
                         JString (''Invalid handler for '' @ endpointFromPath (pathname u)))])\<rparr>, s)\<close>
    unfolding dispatch_handler_path [OF assms]
    by (simp add: try_handler_not_function json_no_extra del: JSON_stringify.simps)
next
  assume "import_module w (modulePath_of w u) = Inl (JsError m) \<and>
          proxyToCloud w u req
             (log_event (Console_error
                [''[local-api] handler failed, using cloud fallback'',
                 endpointFromPath (pathname u), m]) s) = (Inr r, s2)"
  then show "dispatch w u req s = (Inr r, s2)"
    using dispatch_fallback_succeeds [OF assms, where req = req and s = s and m = m]
    by (simp add: try_handler_import_throws)
next
  assume "import_module w (modulePath_of w u) = Inr (Function h) \<and>
          h (new_Request u req (fst (body_of req s))) = Inl (JsError m) \<and>
          proxyToCloud w u req
             (log_event (Console_error
                [''[local-api] handler failed, using cloud fallback'',
                 endpointFromPath (pathname u), m]) (snd (body_of req s))) = (Inr r, s2)"
  then show "dispatch w u req s = (Inr r, s2)"
    using dispatch_fallback_succeeds [OF assms, where req = req and s = s and m = m]
    by (simp add: try_handler_function)
qed

theorem dispatch_invalid_handler_witness:
  \<open>dispatch (sample_world (Inr Not_function) (Inr upstream_ok)) (sample_url ''/api/weather'')
       (sample_req ''POST'') (fresh [''abc'']) =
      (Inr \<lparr>status = 500, resp_headers = [(''content-type'', ''application/json'')],
            resp_body = ''{"error":"Invalid handler for weather"}''\<rparr>, fresh [''abc'']) \<and>
    dispatch (sample_world (Inl (JsError ''syntax'')) (Inr upstream_ok)) (sample_url ''/api/weather'')
       (sample_req ''POST'') (fresh [''abc'']) =
      (Inr upstream_ok,
       \<lparr>unread = [],
        events = [Console_error [''[local-api] handler failed, using cloud fallback'', ''weather'', ''syntax''],
                  Fetched \<lparr>target = ''https://worldmonitor.app/api/weather'', fc_method = ''POST'',
                           fc_headers = [(''accept'', ''*/*'')], fc_body = Some ''abc''\<rparr>]\<rparr>) \<and>
    dispatch (sample_world (Inr (Function throwing_handler)) (Inr upstream_ok)) (sample_url ''/api/weather'')
       (sample_req ''GET'') (fresh []) =
      (Inr upstream_ok,
       \<lparr>unread = [],
        events = [Console_error [''[local-api] handler failed, using cloud fallback'', ''weather'', ''boom''],
                  Fetched \<lparr>target = ''https://worldmonitor.app/api/weather'', fc_method = ''GET'',
                           fc_headers = [(''accept'', ''*/*'')], fc_body = None\<rparr>]\<rparr>)\<close>
  using
    dispatch_invalid_handler [where u = "sample_url ''/api/weather''"
      and w = "sample_world (Inr Not_function) (Inr upstream_ok)"
      and req = "sample_req ''POST''" and s = "fresh [''abc'']"]
    dispatch_invalid_handler [where u = "sample_url ''/api/weather''"
      and w = "sample_world (Inl (JsError ''syntax'')) (Inr upstream_ok)"
      and req = "sample_req ''POST''" and s = "fresh [''abc'']" and m = "''syntax''"
      and r = upstream_ok
      and ?s2.0 = "\<lparr>unread = [],
        events = [Console_error [''[local-api] handler failed, using cloud fallback'', ''weather'', ''syntax''],
                  Fetched \<lparr>target = ''https://worldmonitor.app/api/weather'', fc_method = ''POST'',
                           fc_headers = [(''accept'', ''*/*'')], fc_body = Some ''abc''\<rparr>]\<rparr>"]
    dispatch_invalid_handler [where u = "sample_url ''/api/weather''"
      and w = "sample_world (Inr (Function throwing_handler)) (Inr upstream_ok)"
      and req = "sample_req ''GET''" and s = "fresh []" and m = "''boom''"
      and h = throwing_handler and r = upstream_ok
      and ?s2.0 = "\<lparr>unread = [],
        events = [Console_error [''[local-api] handler failed, using cloud fallback'', ''weather'', ''boom''],
                  Fetched \<lparr>target = ''https://worldmonitor.app/api/weather'', fc_method = ''GET'',
                           fc_headers = [(''accept'', ''*/*'')], fc_body = None\<rparr>]\<rparr>"]
  unfolding stringify_invalid_weather [symmetric]
  by (simp add: sample_exists sample_proxy sample_endpoint del: JSON_stringify.simps)
    (simp add: sample_world_def sample_url_def sample_req_def fresh_def throwing_handler_def
      body_of_def readBody_def log_event_def sample_endpoint del: JSON_stringify.simps)

text \<open>
  C2. When the handler file exists and the import throws, or the imported function throws
  on the request, and the Cloud Proxy call made from the \<^verbatim>\<open>catch\<close> fails as well, \<^verbatim>\<open>dispatch\<close>
  returns status 502 with the fixed body
  \<^verbatim>\<open>{"error":"Local handler failed and cloud fallback unavailable"}\<close>. In the second case
  the fallback runs on the stream as the \<^verbatim>\<open>try\<close> block left it.
\<close>

theorem dispatch_both_fail:
  assumes "pathname u \<noteq> ''/api/service-status''" and "pathname u \<noteq> ''/api/local-status''"
    and "existsSync w (modulePath_of w u)"
  shows \<open>(import_module w (modulePath_of w u) = Inl (JsError m) \<and>
          fst (proxyToCloud w u req
                 (log_event (Console_error
                    [''[local-api] handler failed, using cloud fallback'',
                     endpointFromPath (pathname u), m]) s)) = Inl e
          \<longrightarrow> fst (dispatch w u req s) =
                Inr \<lparr>status = 502, resp_headers = [(''content-type'', ''application/json'')],
                     resp_body = ''{"error":"Local handler failed and cloud fallback unavailable"}''\<rparr>)
       \<and>
         (import_module w (modulePath_of w u) = Inr (Function h) \<and>
          h (new_Request u req (fst (body_of req s))) = Inl (JsError m) \<and>
          fst (proxyToCloud w u req
                 (log_event (Console_error
                    [''[local-api] handler failed, using cloud fallback'',
                     endpointFromPath (pathname u), m]) (snd (body_of req s)))) = Inl e
          \<longrightarrow> fst (dispatch w u req s) =
                Inr \<lparr>status = 502, resp_headers = [(''content-type'', ''application/json'')],
                     resp_body = ''{"error":"Local handler failed and cloud fallback unavailable"}''\<rparr>)\<close>
  using dispatch_fallback_fails [OF assms, where req = req and s = s and m = m and e = e]
  by (auto simp: try_handler_import_throws try_handler_function unavailable_response)

theorem dispatch_both_fail_witness:
  \<open>existsSync (sample_world (Inl (JsError ''syntax'')) (Inl (JsError ''net'')))
      (modulePath_of (sample_world (Inl (JsError ''syntax'')) (Inl (JsError ''net'')))
         (sample_url ''/api/weather'')) \<and>
    import_module (sample_world (Inl (JsError ''syntax'')) (Inl (JsError ''net'')))
      (modulePath_of (sample_world (Inl (JsError ''syntax'')) (Inl (JsError ''net'')))
         (sample_url ''/api/weather'')) = Inl (JsError ''syntax'') \<and>
    fst (dispatch (sample_world (Inl (JsError ''syntax'')) (Inl (JsError ''net'')))
           (sample_url ''/api/weather'') (sample_req ''POST'') (fresh [''abc''])) =
      Inr \<lparr>status = 502, resp_headers = [(''content-type'', ''application/json'')],
           resp_body = ''{"error":"Local handler failed and cloud fallback unavailable"}''\<rparr> \<and>
    import_module (sample_world (Inr (Function throwing_handler)) (Inl (JsError ''net'')))
      (modulePath_of (sample_world (Inr (Function throwing_handler)) (Inl (JsError ''net'')))
         (sample_url ''/api/weather'')) = Inr (Function throwing_handler) \<and>
    fst (dispatch (sample_world (Inr (Function throwing_handler)) (Inl (JsError ''net'')))
           (sample_url ''/api/weather'') (sample_req ''POST'') (fresh [''abc''])) =
      Inr \<lparr>status = 502, resp_headers = [(''content-type'', ''application/json'')],
           resp_body = ''{"error":"Local handler failed and cloud fallback unavailable"}''\<rparr>\<close>
  using
    dispatch_both_fail [where u = "sample_url ''/api/weather''"
      and w = "sample_world (Inl (JsError ''syntax'')) (Inl (JsError ''net''))"
      and m = "''syntax''" and req = "sample_req ''POST''" and s = "fresh [''abc'']"
      and e = "JsError ''net''" and h = throwing_handler]
    dispatch_both_fail [where u = "sample_url ''/api/weather''"
      and w = "sample_world (Inr (Function throwing_handler)) (Inl (JsError ''net''))"
      and m = "''boom''" and req = "sample_req ''POST''" and s = "fresh [''abc'']"
      and e = "JsError ''net''" and h = throwing_handler]
  by (simp add: sample_module_path proxyToCloud_unfold)
    (simp add: sample_world_def sample_url_def throwing_handler_def)

text \<open>
  C3, at an input where the code departs from it. \<^verbatim>\<open>POST /api/weather\<close> with the body
  \<open>abc\<close>, while \<open>weather.js\<close> exists and its default export throws: the \<^verbatim>\<open>try\<close> block
  reads the body for the handler's request, the handler throws, and the fallback forwards
  the \<^verbatim>\<open>POST\<close> upstream with no body at all (\<open>fc_body = None\<close>), not with \<open>abc\<close>.
\<close>

theorem fallback_after_invocation_sends_no_body:
  \<open>dispatch (sample_world (Inr (Function throwing_handler)) (Inr upstream_ok)) (sample_url ''/api/weather'')
       (sample_req ''POST'') (fresh [''abc'']) =
      (Inr upstream_ok,
       \<lparr>unread = [],
        events = [Console_error [''[local-api] handler failed, using cloud fallback'', ''weather'', ''boom''],
                  Fetched \<lparr>target = ''https://worldmonitor.app/api/weather'', fc_method = ''POST'',
                           fc_headers = [(''accept'', ''*/*'')], fc_body = None\<rparr>]\<rparr>)\<close>
proof -
  have sp: "pathname (sample_url ''/api/weather'') \<noteq> ''/api/service-status''"
    "pathname (sample_url ''/api/weather'') \<noteq> ''/api/local-status''"
    by (simp_all add: sample_url_def)
  have imp: "import_module (sample_world (Inr (Function throwing_handler)) (Inr upstream_ok))
      (modulePath_of (sample_world (Inr (Function throwing_handler)) (Inr upstream_ok))
         (sample_url ''/api/weather'')) = Inr (Function throwing_handler)"
    by (simp add: sample_world_def)
  show ?thesis
    unfolding dispatch_handler_path [OF sp sample_exists] try_handler_function [OF imp]
    by (simp add: sample_proxy throwing_handler_def)
      (simp add: sample_url_def sample_req_def fresh_def body_of_def readBody_def log_event_def
        sample_endpoint)
qed

text \<open>
  C4, at an input where the code departs from it. \<^verbatim>\<open>GET //\<close>: the request target \<open>//\<close> does
  not start with \<open>/api/\<close>, and node hands it to the callback as \<^verbatim>\<open>req.url\<close>. The first
  statement of the callback, \<^verbatim>\<open>new URL('//', 'http://127.0.0.1:46123')\<close>, throws before the
  prefix test is reached and outside the \<^verbatim>\<open>try\<close> whose \<^verbatim>\<open>catch\<close> would have answered: the
  callback rejects, and neither the 404 nor any other response is written. \<^verbatim>\<open>dispatch\<close> is
  not called.
\<close>

theorem callback_rejects_unparsable_target:
  "\<not> startsWith ''//'' ''/api/'' \<and>
   createServer_callback (sample_world (Inr Not_function) (Inr upstream_ok)) (Some ''//'')
     (sample_req ''GET'') (fresh []) =
     (Inl (JsError ''Invalid URL''), \<lparr>unread = [], events = []\<rparr>)"
  by (simp add: createServer_callback_def or_default_def sample_world_def sample_new_URL_def
      fresh_def startsWith_def)

text \<open>
  C5. \<^verbatim>\<open>endpointFromPath\<close> is a function of the path alone and always yields a name, never
  the empty string: it drops the prefix \<open>/api/\<close> and one trailing slash, and gives \<open>index\<close>
  when nothing is left. A path without the prefix only loses its trailing slash.
\<close>

theorem endpointFromPath_total:
  "endpointFromPath (''/api/'' @ e @ ''/'') = (if e = [] then ''index'' else e) \<and>
   (e \<noteq> [] \<and> last e \<noteq> CHR ''/'' \<longrightarrow> endpointFromPath (''/api/'' @ e) = e) \<and>
   endpointFromPath ''/api/'' = ''index'' \<and>
   (\<not> startsWith p ''/api/'' \<longrightarrow>
      endpointFromPath p =
        (if p = [] \<or> p = ''/'' then ''index''
         else if last p = CHR ''/'' then butlast p else p)) \<and>
   endpointFromPath p \<noteq> []"
proof (intro conjI impI)
  show "endpointFromPath (''/api/'' @ e @ ''/'') = (if e = [] then ''index'' else e)"
    unfolding endpointFromPath_def replace_api_prefix_append replace_trailing_slash_snoc
    by (simp add: Let_def)
next
  assume "e \<noteq> [] \<and> last e \<noteq> CHR ''/''"
  then show "endpointFromPath (''/api/'' @ e) = e"
    unfolding endpointFromPath_def replace_api_prefix_append
    by (simp add: replace_trailing_slash_id Let_def)
next
  show "endpointFromPath ''/api/'' = ''index''"
    by (simp add: endpointFromPath_def replace_api_prefix_def replace_trailing_slash_def
        startsWith_def)
next
  assume "\<not> startsWith p ''/api/''"
  then show "endpointFromPath p =
        (if p = [] \<or> p = ''/'' then ''index''
         else if last p = CHR ''/'' then butlast p else p)"
    by (cases p rule: rev_cases)
      (auto simp: endpointFromPath_def replace_api_prefix_def replace_trailing_slash_def Let_def)
next
  show "endpointFromPath p \<noteq> []"
    by (simp add: endpointFromPath_def Let_def)
qed

theorem endpointFromPath_total_witness:
  "endpointFromPath ''/api/weather/'' = ''weather'' \<and>
   endpointFromPath ''/api/weather'' = ''weather'' \<and>
   endpointFromPath ''/api/'' = ''index'' \<and>
   endpointFromPath ''/health/'' = ''/health''"
  using endpointFromPath_total [of "''weather''" "''/health/''"]
  by (simp add: startsWith_def)



text \<open>
  C7. Outside the desktop runtime \<^verbatim>\<open>getApiBaseUrl\<close> is the empty string whatever the
  override. Inside it, a configured override is returned without one trailing slash, and
  without an override (unset or empty) the result is \<open>http://127.0.0.1:46123\<close>.
\<close>

theorem getApiBaseUrl_cases:
  "(\<not> isDesktopRuntime r \<longrightarrow> getApiBaseUrl r = []) \<and>
   (isDesktopRuntime r \<and> VITE_TAURI_API_BASE_URL r = Some (b @ ''/'') \<longrightarrow> getApiBaseUrl r = b) \<and>
   (isDesktopRuntime r \<and> VITE_TAURI_API_BASE_URL r = Some b \<and> b \<noteq> [] \<and> last b \<noteq> CHR ''/''
      \<longrightarrow> getApiBaseUrl r = b) \<and>
   (isDesktopRuntime r \<and> (VITE_TAURI_API_BASE_URL r = None \<or> VITE_TAURI_API_BASE_URL r = Some [])
      \<longrightarrow> getApiBaseUrl r = ''http://127.0.0.1:46123'')"
  by (auto simp: getApiBaseUrl_def normalizeBaseUrl_snoc DEFAULT_LOCAL_API_BASE_def
      normalizeBaseUrl_def replace_trailing_slash_def)

theorem getApiBaseUrl_cases_witness:
  "\<not> isDesktopRuntime (browser_runtime (Some ''http://localhost:9000/'')) \<and>
   getApiBaseUrl (browser_runtime (Some ''http://localhost:9000/'')) = [] \<and>
   isDesktopRuntime (desktop_runtime (Some ''http://localhost:9000/'')) \<and>
   getApiBaseUrl (desktop_runtime (Some ''http://localhost:9000/'')) = ''http://localhost:9000'' \<and>
   getApiBaseUrl (desktop_runtime (Some ''http://localhost:9000'')) = ''http://localhost:9000'' \<and>
   getApiBaseUrl (desktop_runtime None) = ''http://127.0.0.1:46123''"
  using
    getApiBaseUrl_cases [of "browser_runtime (Some ''http://localhost:9000/'')" "[]"]
    getApiBaseUrl_cases [of "desktop_runtime (Some ''http://localhost:9000/'')" "''http://localhost:9000''"]
    getApiBaseUrl_cases [of "desktop_runtime (Some ''http://localhost:9000'')" "''http://localhost:9000''"]
    getApiBaseUrl_cases [of "desktop_runtime None" "[]"]
  by (simp add: isDesktopRuntime_def browser_runtime_def desktop_runtime_def tauri_window_def)

text \<open>
  C8. \<^verbatim>\<open>toRuntimeUrl\<close> returns a path that does not start with \<open>/\<close> as it is; a path that
  does is prefixed with \<^verbatim>\<open>getApiBaseUrl()\<close> in the desktop runtime and returned as it is
  elsewhere. With the local base \<open>http://127.0.0.1:46123\<close>, \<open>/api/x\<close> becomes
  \<open>http://127.0.0.1:46123/api/x\<close>.
\<close>

theorem toRuntimeUrl_cases:
  "(\<not> startsWith path ''/'' \<longrightarrow> toRuntimeUrl r path = path) \<and>
   (startsWith path ''/'' \<and> isDesktopRuntime r \<longrightarrow> toRuntimeUrl r path = getApiBaseUrl r @ path) \<and>
   (startsWith path ''/'' \<and> \<not> isDesktopRuntime r \<longrightarrow> toRuntimeUrl r path = path) \<and>
   (isDesktopRuntime r \<and> getApiBaseUrl r = ''http://127.0.0.1:46123''
      \<longrightarrow> toRuntimeUrl r ''/api/x'' = ''http://127.0.0.1:46123/api/x'')"
  by (auto simp: toRuntimeUrl_def Let_def getApiBaseUrl_def startsWith_def)

theorem toRuntimeUrl_cases_witness:
  "toRuntimeUrl (desktop_runtime None) ''api/x'' = ''api/x'' \<and>
   isDesktopRuntime (desktop_runtime None) \<and>
   getApiBaseUrl (desktop_runtime None) = ''http://127.0.0.1:46123'' \<and>
   toRuntimeUrl (desktop_runtime None) ''/api/x'' = ''http://127.0.0.1:46123/api/x'' \<and>
   \<not> isDesktopRuntime (browser_runtime (Some ''http://localhost:9000'')) \<and>
   toRuntimeUrl (browser_runtime (Some ''http://localhost:9000'')) ''/api/x'' = ''/api/x''"
  using
    toRuntimeUrl_cases [of "''api/x''" "desktop_runtime None"]
    toRuntimeUrl_cases [of "''/api/x''" "desktop_runtime None"]
    toRuntimeUrl_cases [of "''/api/x''" "browser_runtime (Some ''http://localhost:9000'')"]
  by (simp add: startsWith_def isDesktopRuntime_def desktop_runtime_def browser_runtime_def
      tauri_window_def getApiBaseUrl_def DEFAULT_LOCAL_API_BASE_def)

text \<open>
  C9. \<^verbatim>\<open>installRuntimeFetchPatch\<close> is idempotent: a second call changes nothing, and so
  does any number of further calls. It changes nothing outside the desktop runtime or when
  the marker \<^verbatim>\<open>__wmFetchPatched\<close> is set; otherwise it wraps the current \<^verbatim>\<open>window.fetch\<close> once
  and sets the marker. However often it is called, at most one patch is added to the
  \<^verbatim>\<open>fetch\<close> it started from.
\<close>

theorem installRuntimeFetchPatch_idempotent:
  "installRuntimeFetchPatch (installRuntimeFetchPatch r) = installRuntimeFetchPatch r \<and>
   (installRuntimeFetchPatch ^^ Suc n) r = installRuntimeFetchPatch r \<and>
   (\<not> isDesktopRuntime r \<longrightarrow> installRuntimeFetchPatch r = r) \<and>
   (\<forall>win. global_window r = Some win \<and> wmFetchPatched win \<longrightarrow> installRuntimeFetchPatch r = r) \<and>
   (\<forall>win. global_window r = Some win \<and> isDesktopRuntime r \<and> \<not> wmFetchPatched win \<longrightarrow>
      installRuntimeFetchPatch r =
        r\<lparr>global_window :=
            Some (win\<lparr>window_fetch :=
                        Patched (window_fetch win) (getApiBaseUrl r) (getRemoteApiBaseUrl r),
                      wmFetchPatched := True\<rparr>)\<rparr>) \<and>
   (\<forall>win win'. global_window r = Some win \<and>
        global_window ((installRuntimeFetchPatch ^^ k) r) = Some win' \<longrightarrow>
      patch_depth (window_fetch win') \<le> Suc (patch_depth (window_fetch win)))"
  using install_depth [of r _ k]
  by (auto simp: install_twice install_funpow install_not_desktop install_patched install_fresh
      simp del: funpow.simps)

theorem installRuntimeFetchPatch_idempotent_witness:
  "isDesktopRuntime (desktop_runtime None) \<and>
   installRuntimeFetchPatch (desktop_runtime None) =
     \<lparr>global_window = Some \<lparr>has_TAURI_INTERNALS = True, has_TAURI = False, wmFetchPatched = True,
        window_fetch = Patched Native_fetch ''http://127.0.0.1:46123'' ''https://worldmonitor.app''\<rparr>,
      VITE_TAURI_API_BASE_URL = None, VITE_TAURI_REMOTE_API_BASE_URL = None, VITE_VARIANT = None\<rparr> \<and>
   installRuntimeFetchPatch (installRuntimeFetchPatch (desktop_runtime None)) =
     installRuntimeFetchPatch (desktop_runtime None) \<and>
   \<not> isDesktopRuntime (browser_runtime None) \<and>
   installRuntimeFetchPatch (browser_runtime None) = browser_runtime None"
  using
    installRuntimeFetchPatch_idempotent [of "desktop_runtime None" 0 0]
    installRuntimeFetchPatch_idempotent [of "installRuntimeFetchPatch (desktop_runtime None)" 0 0]
    installRuntimeFetchPatch_idempotent [of "browser_runtime None" 0 0]
  by (simp add: isDesktopRuntime_def browser_runtime_def desktop_runtime_def tauri_window_def
      getApiBaseUrl_def getRemoteApiBaseUrl_def variant_host_def or_default_def
      DEFAULT_REMOTE_HOSTS_def DEFAULT_LOCAL_API_BASE_def)

text \<open>
  C10. For a path under \<open>/api/\<close> with no handler file, \<^verbatim>\<open>dispatch\<close> is the Cloud Proxy call
  and nothing else, so a failure of that call leaves \<^verbatim>\<open>dispatch\<close> as a throw; the server
  callback catches it and answers 500 with the body \<^verbatim>\<open>{"error":"Internal server error"}\<close>,
  not the 502 body of the handler-failure path.
\<close>

theorem not_found_proxy_failure:
  assumes "startsWith (pathname u) ''/api/''"
    and "pathname u \<noteq> ''/api/service-status''" and "pathname u \<noteq> ''/api/local-status''"
    and "\<not> existsSync w (modulePath_of w u)"
    and "fst (proxyToCloud w u req (log_event Dispatch_called s)) = Inl (JsError m)"
  shows \<open>dispatch w u req (log_event Dispatch_called s) =
           proxyToCloud w u req (log_event Dispatch_called s) \<and>
         fst (dispatch w u req (log_event Dispatch_called s)) = Inl (JsError m) \<and>
         fst (server_callback w u req s) =
           \<lparr>wr_status = 500, wr_headers = [(''content-type'', ''application/json'')],
            wr_body = ''{"error":"Internal server error"}''\<rparr> \<and>
         wr_body (fst (server_callback w u req s)) \<noteq>
           ''{"error":"Local handler failed and cloud fallback unavailable"}''\<close>
proof -
  have d: "dispatch w u req (log_event Dispatch_called s) =
           proxyToCloud w u req (log_event Dispatch_called s)"
    using assms(2-4) by (rule dispatch_not_found)
  obtain s1 where p: "proxyToCloud w u req (log_event Dispatch_called s) = (Inl (JsError m), s1)"
    using assms(5) by (metis prod.collapse)
  have sc: \<open>fst (server_callback w u req s) =
           \<lparr>wr_status = 500, wr_headers = [(''content-type'', ''application/json'')],
            wr_body = ''{"error":"Internal server error"}''\<rparr>\<close>
    unfolding server_callback_def d p stringify_internal using assms(1) by simp
  show ?thesis
    unfolding sc using d assms(5) by simp
qed

theorem not_found_proxy_failure_witness:
  \<open>startsWith (pathname (sample_url ''/api/news'')) ''/api/'' \<and>
    \<not> existsSync (sample_world (Inr Not_function) (Inl (JsError ''ECONNREFUSED'')))
        (modulePath_of (sample_world (Inr Not_function) (Inl (JsError ''ECONNREFUSED'')))
           (sample_url ''/api/news'')) \<and>
    fst (dispatch (sample_world (Inr Not_function) (Inl (JsError ''ECONNREFUSED''))) (sample_url ''/api/news'')
           (sample_req ''GET'') (log_event Dispatch_called (fresh []))) = Inl (JsError ''ECONNREFUSED'') \<and>
    fst (server_callback (sample_world (Inr Not_function) (Inl (JsError ''ECONNREFUSED'')))
           (sample_url ''/api/news'') (sample_req ''GET'') (fresh [])) =
      \<lparr>wr_status = 500, wr_headers = [(''content-type'', ''application/json'')],
       wr_body = ''{"error":"Internal server error"}''\<rparr>\<close>
  using not_found_proxy_failure [where u = "sample_url ''/api/news''"
      and w = "sample_world (Inr Not_function) (Inl (JsError ''ECONNREFUSED''))"
      and req = "sample_req ''GET''" and s = "fresh []" and m = "''ECONNREFUSED''"]
  by (simp add: sample_not_exists sample_proxy)
    (simp add: sample_url_def startsWith_def)

end
